theory Spec2Isabelle
  imports Main
begin

section \<open>Data model of \<^verbatim>\<open>client/components/Auth.tsx\<close>\<close>

text \<open>
  \<^verbatim>\<open>TokenInfo\<close> is declared in \<^verbatim>\<open>utils/AuthService\<close>; \<^verbatim>\<open>fetchTokenInfo\<close> reads only
  its field \<^verbatim>\<open>user\<close>. The record is used through its scheme, so whatever other fields
  the service returns live in the extension \<open>'t\<close> and are carried along untouched.
  \<^verbatim>\<open>UserProfile\<close> (from \<^verbatim>\<open>utils/UserModel\<close>) is never inspected: it is the type
  parameter \<open>'p\<close>.
\<close>

record TokenInfo =
  user :: string

text \<open>\<^verbatim>\<open>interface AuthInfo { token: string; tokenInfo: TokenInfo }\<close>\<close>

record 't AuthInfo =
  token :: string
  tokenInfo :: "'t TokenInfo_scheme"

text \<open>
  The discriminated union \<^verbatim>\<open>AuthenticationState\<close>; the enum \<^verbatim>\<open>AuthenticationStatus\<close>
  is the constructor. \<^verbatim>\<open>AuthenticationStatus.NONE\<close> is written \<open>AUTH_NONE\<close>, since the
  envelope has a \<^verbatim>\<open>NONE\<close> of its own.
\<close>

datatype ('t, 'p) AuthenticationState =
    AUTH_NONE
  | AUTHENTICATED "'t AuthInfo" 'p
  | UNAUTHENTICATED

text \<open>
  Modelled from the spec: \<^verbatim>\<open>AsyncProcess\<close> and \<^verbatim>\<open>AsyncProcessStatus\<close> are declared in
  \<^verbatim>\<open>utils/AsyncProcess\<close>, which is not among the sources. The source uses the phases
  \<^verbatim>\<open>NONE\<close>, \<^verbatim>\<open>SUCCESS\<close> (with \<^verbatim>\<open>value\<close>) and \<^verbatim>\<open>ERROR\<close> (with \<^verbatim>\<open>message\<close>); the
  specification's envelope has four phases, Idle, Pending, Succeeded(value) and
  Failed(message), so the fourth phase is \<open>PENDING\<close>.
\<close>

datatype 'a AsyncProcess =
    NONE
  | PENDING
  | SUCCESS 'a
  | ERROR string

type_synonym ('t, 'p) AuthState = "('t, 'p) AuthenticationState AsyncProcess"

subsection \<open>Thrown values and awaited calls\<close>

text \<open>
  The \<^verbatim>\<open>catch (ex)\<close> clause tells three kinds of thrown value apart, in this order:
  \<^item> \<^verbatim>\<open>ex instanceof AuthError\<close>: the clause reads \<^verbatim>\<open>ex.error.appcode\<close> and
    \<^verbatim>\<open>ex.error.message\<close>;
  \<^item> \<^verbatim>\<open>ex instanceof Error\<close>: the clause reads \<^verbatim>\<open>ex.message\<close>, a string (the empty
    string for \<^verbatim>\<open>new Error()\<close>);
  \<^item> anything else. JavaScript lets any value be thrown, and a promise be rejected with
    any value: a string, \<^verbatim>\<open>undefined\<close>, or an object that is no \<^verbatim>\<open>Error\<close> and still
    has a \<^verbatim>\<open>message\<close> property. \<open>NonError m\<close> records that property when there is one.
\<close>

datatype thrown =
    AuthError int string
  | JsError string
  | NonError "string option"

text \<open>
  What \<^verbatim>\<open>await\<close> observes of a promise: it is fulfilled with a value, rejected with a
  thrown value, or never settles, in which case the awaiting function stays suspended.
\<close>

datatype 'a awaited =
    Fulfilled 'a
  | Rejected thrown
  | Unsettled

text \<open>
  What a synchronous call does: it returns a value or throws.
\<close>

datatype 'a returned =
    Returns 'a
  | Throws thrown

text \<open>
  The collaborators, none of them among the sources, taken as parameters:
  \<^item> \<open>getToken\<close>: \<^verbatim>\<open>BrowserAuth.getToken()\<close>, a synchronous call, \<open>Returns None\<close> for
    \<^verbatim>\<open>null\<close>;
  \<^item> \<open>newAuthService tok\<close>: the constructor call \<^verbatim>\<open>new AuthService(tok)\<close>, synchronous;
  \<^item> \<open>getTokenInfo tok\<close>: what \<^verbatim>\<open>await auth.getTokenInfo()\<close> observes on the client
    constructed for \<open>tok\<close>;
  \<^item> \<open>fetchProfile tok name\<close>: what \<^verbatim>\<open>await userModel.fetchProfile(name)\<close> observes,
    with \<^verbatim>\<open>new UserModel(tok)\<close> before it. Both happen in the body of the async
    \<^verbatim>\<open>fetchUserProfile\<close>, so a throw of that constructor is a rejection of the promise
    awaited in \<^verbatim>\<open>fetchTokenInfo\<close>, as a rejection of the fetch is.
\<close>

record ('t, 'p) collaborators =
  getToken :: "string option returned"
  newAuthService :: "string \<Rightarrow> unit returned"
  getTokenInfo :: "string \<Rightarrow> 't TokenInfo_scheme option awaited"
  fetchProfile :: "string \<Rightarrow> string \<Rightarrow> 'p option awaited"

subsection \<open>The component and what it does, in order\<close>

text \<open>
  The effects of a run, in program order: the remote calls it starts and the
  \<^verbatim>\<open>this.setState({ authState: ... })\<close> writes of the envelope.
\<close>

datatype ('t, 'p) event =
    Call_getTokenInfo string
  | Call_fetchProfile string string
  | SetState "('t, 'p) AuthState"

text \<open>
  The component: its state field \<^verbatim>\<open>authState\<close> (\<^verbatim>\<open>AuthWrapperState\<close>), and the history
  of effects, which the source does not store and the model keeps to speak about them.
\<close>

record ('t, 'p) AuthWrapper =
  authState :: "('t, 'p) AuthState"
  history :: "('t, 'p) event list"

definition constructor :: "('t, 'p) AuthWrapper" where
  "constructor = \<lparr>authState = NONE, history = []\<rparr>"

definition setState :: "('t, 'p) AuthState \<Rightarrow> ('t, 'p) AuthWrapper \<Rightarrow> ('t, 'p) AuthWrapper" where
  "setState s this = this\<lparr>authState := s, history := history this @ [SetState s]\<rparr>"

definition record_call :: "('t, 'p) event \<Rightarrow> ('t, 'p) AuthWrapper \<Rightarrow> ('t, 'p) AuthWrapper" where
  "record_call e this = this\<lparr>history := history this @ [e]\<rparr>"

section \<open>The operations\<close>

text \<open>
  \<^verbatim>\<open>fetchUserProfile(token, username)\<close>: awaits the profile and throws
  \<^verbatim>\<open>new Error(`User not found: ${username}`)\<close> when it is \<^verbatim>\<open>null\<close>.
\<close>

definition fetchUserProfile ::
  "('t, 'p) collaborators \<Rightarrow> string \<Rightarrow> string \<Rightarrow> ('t, 'p) AuthWrapper
     \<Rightarrow> 'p awaited \<times> ('t, 'p) AuthWrapper" where
  "fetchUserProfile env tok username this =
     (let this1 = record_call (Call_fetchProfile tok username) this in
      case fetchProfile env tok username of
        Unsettled \<Rightarrow> (Unsettled, this1)
      | Rejected ex \<Rightarrow> (Rejected ex, this1)
      | Fulfilled None \<Rightarrow> (Rejected (JsError (''User not found: '' @ username)), this1)
      | Fulfilled (Some userProfile) \<Rightarrow> (Fulfilled userProfile, this1))"

text \<open>The two local functions of \<^verbatim>\<open>fetchTokenInfo\<close>.\<close>

definition unauthenticatedState :: "('t, 'p) AuthState" where
  "unauthenticatedState = SUCCESS UNAUTHENTICATED"

definition errorState :: "string \<Rightarrow> ('t, 'p) AuthState" where
  "errorState message = ERROR message"

text \<open>
  The \<^verbatim>\<open>catch (ex)\<close> clause of \<^verbatim>\<open>fetchTokenInfo\<close>: the \<^verbatim>\<open>instanceof\<close> tests in the
  source's order, and the \<^verbatim>\<open>switch\<close> on \<^verbatim>\<open>ex.error.appcode\<close> with its one case 10020.
\<close>

definition fetchTokenInfo_catch ::
  "thrown \<Rightarrow> ('t, 'p) AuthWrapper \<Rightarrow> ('t, 'p) AuthWrapper" where
  "fetchTokenInfo_catch ex this =
     (case ex of
        AuthError appcode message \<Rightarrow>
          (if appcode = 10020 then setState unauthenticatedState this
           else setState (errorState message) this)
      | JsError message \<Rightarrow> setState (errorState message) this
      | NonError _ \<Rightarrow> setState (errorState ''Unknown Error'') this)"

text \<open>
  \<^verbatim>\<open>async fetchTokenInfo()\<close>. The result is what the promise it returns does and the
  component afterwards: \<open>Fulfilled ()\<close> when the body ran to its end, \<open>Unsettled\<close> when
  the body is suspended for ever at an \<^verbatim>\<open>await\<close>, \<open>Rejected ex\<close> when a thrown value
  leaves the body. \<^verbatim>\<open>BrowserAuth.getToken()\<close> and \<^verbatim>\<open>new AuthService(token)\<close> stand
  before the \<^verbatim>\<open>try\<close>: what they throw leaves the body. The two awaits stand inside it.
\<close>

definition fetchTokenInfo ::
  "('t, 'p) collaborators \<Rightarrow> ('t, 'p) AuthWrapper \<Rightarrow> unit awaited \<times> ('t, 'p) AuthWrapper" where
  "fetchTokenInfo env this =
     (case getToken env of
        Throws ex \<Rightarrow> (Rejected ex, this)
      | Returns None \<Rightarrow> (Fulfilled (), setState unauthenticatedState this)
      | Returns (Some tok) \<Rightarrow>
          (case newAuthService env tok of
             Throws ex \<Rightarrow> (Rejected ex, this)
           | Returns _ \<Rightarrow>
               (let this1 = record_call (Call_getTokenInfo tok) this in
                case getTokenInfo env tok of
                  Unsettled \<Rightarrow> (Unsettled, this1)
                | Rejected ex \<Rightarrow> (Fulfilled (), fetchTokenInfo_catch ex this1)
                | Fulfilled None \<Rightarrow> (Fulfilled (), setState unauthenticatedState this1)
                | Fulfilled (Some info) \<Rightarrow>
                    (case fetchUserProfile env tok (user info) this1 of
                       (Unsettled, this2) \<Rightarrow> (Unsettled, this2)
                     | (Rejected ex, this2) \<Rightarrow> (Fulfilled (), fetchTokenInfo_catch ex this2)
                     | (Fulfilled userProfile, this2) \<Rightarrow>
                         (Fulfilled (),
                          setState
                            (SUCCESS
                              (AUTHENTICATED \<lparr>token = tok, tokenInfo = info\<rparr> userProfile))
                            this2)))))"

text \<open>\<^verbatim>\<open>componentDidMount()\<close> starts \<^verbatim>\<open>fetchTokenInfo\<close> and drops its promise.\<close>

definition componentDidMount ::
  "('t, 'p) collaborators \<Rightarrow> ('t, 'p) AuthWrapper \<Rightarrow> ('t, 'p) AuthWrapper" where
  "componentDidMount env this = snd (fetchTokenInfo env this)"

section \<open>Observations on a run\<close>

text \<open>The envelopes written, in order, and the remote calls started, in order.\<close>

fun writes :: "('t, 'p) event list \<Rightarrow> ('t, 'p) AuthState list" where
  "writes [] = []"
| "writes (SetState s # es) = s # writes es"
| "writes (Call_getTokenInfo _ # es) = writes es"
| "writes (Call_fetchProfile _ _ # es) = writes es"

fun remote_calls :: "('t, 'p) event list \<Rightarrow> ('t, 'p) event list" where
  "remote_calls [] = []"
| "remote_calls (SetState _ # es) = remote_calls es"
| "remote_calls (e # es) = e # remote_calls es"


text \<open>
  A classified failure is an \<^verbatim>\<open>AuthError\<close>; the message a thrown value carries, when
  it carries one.
\<close>

fun classified :: "thrown \<Rightarrow> bool" where
  "classified (AuthError _ _) = True"
| "classified _ = False"

fun thrown_message :: "thrown \<Rightarrow> string option" where
  "thrown_message (AuthError _ message) = Some message"
| "thrown_message (JsError message) = Some message"
| "thrown_message (NonError m) = m"



subsection \<open>Concrete collaborators\<close>

text \<open>
  A service that knows the token \<^verbatim>\<open>"abc123"\<close> of \<^verbatim>\<open>alice\<close> and the token \<^verbatim>\<open>"tok-bob"\<close>
  of \<^verbatim>\<open>bob\<close>, who has no profile; every other token gets the answer \<open>other\<close>. The
  profile of \<^verbatim>\<open>alice\<close> is the string \<^verbatim>\<open>"Alice"\<close>.
\<close>

definition service ::
  "string option \<Rightarrow> TokenInfo option awaited \<Rightarrow> (unit, string) collaborators" where
  "service stored other =
     \<lparr>getToken = Returns stored,
      newAuthService = (\<lambda>tok. Returns ()),
      getTokenInfo = (\<lambda>tok.
        if tok = ''abc123'' then Fulfilled (Some \<lparr>user = ''alice''\<rparr>)
        else if tok = ''tok-bob'' then Fulfilled (Some \<lparr>user = ''bob''\<rparr>)
        else other),
      fetchProfile = (\<lambda>tok username.
        if username = ''alice'' then Fulfilled (Some ''Alice'') else Fulfilled None)\<rparr>"

text \<open>A service whose profile lookup fails with \<open>ex\<close> for every user.\<close>

definition service_profile_fails :: "thrown \<Rightarrow> (unit, string) collaborators" where
  "service_profile_fails ex =
     \<lparr>getToken = Returns (Some ''abc123''),
      newAuthService = (\<lambda>tok. Returns ()),
      getTokenInfo = (\<lambda>tok. Fulfilled (Some \<lparr>user = ''alice''\<rparr>)),
      fetchProfile = (\<lambda>tok username. Rejected ex)\<rparr>"


section \<open>Facts about the steps\<close>

lemma setState_simps:
  "authState (setState s this) = s"
  "history (setState s this) = history this @ [SetState s]"
  by (simp_all add: setState_def)

lemma record_call_simps:
  "authState (record_call e this) = authState this"
  "history (record_call e this) = history this @ [e]"
  by (simp_all add: record_call_def)

lemma writes_append: "writes (es @ fs) = writes es @ writes fs"
  by (induction es rule: writes.induct) simp_all

lemma remote_calls_append: "remote_calls (es @ fs) = remote_calls es @ remote_calls fs"
  by (induction es rule: remote_calls.induct) simp_all

lemma fetchTokenInfo_catch_simps:
  "authState (fetchTokenInfo_catch ex this) =
     (case ex of
        AuthError appcode message \<Rightarrow>
          if appcode = 10020 then SUCCESS UNAUTHENTICATED else ERROR message
      | JsError message \<Rightarrow> ERROR message
      | NonError m \<Rightarrow> ERROR ''Unknown Error'')"
  "history (fetchTokenInfo_catch ex this) =
     history this @ [SetState (authState (fetchTokenInfo_catch ex this))]"
  by (simp_all add: fetchTokenInfo_catch_def setState_def unauthenticatedState_def
      errorState_def split: thrown.splits)

lemma fetchTokenInfo_absent:
  "getToken env = Returns None \<Longrightarrow>
   fetchTokenInfo env this = (Fulfilled (), setState (SUCCESS UNAUTHENTICATED) this)"
  by (simp add: fetchTokenInfo_def unauthenticatedState_def)



lemma fetchTokenInfo_rejected:
  "getToken env = Returns (Some tok) \<Longrightarrow> newAuthService env tok = Returns () \<Longrightarrow>
   getTokenInfo env tok = Rejected ex \<Longrightarrow>
   fetchTokenInfo env this =
     (Fulfilled (), fetchTokenInfo_catch ex (record_call (Call_getTokenInfo tok) this))"
  by (simp add: fetchTokenInfo_def)

lemma fetchTokenInfo_no_metadata:
  "getToken env = Returns (Some tok) \<Longrightarrow> newAuthService env tok = Returns () \<Longrightarrow>
   getTokenInfo env tok = Fulfilled None \<Longrightarrow>
   fetchTokenInfo env this =
     (Fulfilled (),
      setState (SUCCESS UNAUTHENTICATED) (record_call (Call_getTokenInfo tok) this))"
  by (simp add: fetchTokenInfo_def unauthenticatedState_def)


lemma fetchTokenInfo_profile_rejected:
  assumes "getToken env = Returns (Some tok)"
    and "newAuthService env tok = Returns ()"
    and "getTokenInfo env tok = Fulfilled (Some info)"
    and "fetchProfile env tok (user info) = Rejected ex"
  shows "fetchTokenInfo env this =
     (Fulfilled (),
      fetchTokenInfo_catch ex
        (record_call (Call_fetchProfile tok (user info))
          (record_call (Call_getTokenInfo tok) this)))"
  using assms by (simp add: fetchTokenInfo_def fetchUserProfile_def)

lemma fetchTokenInfo_profile_absent:
  assumes "getToken env = Returns (Some tok)"
    and "newAuthService env tok = Returns ()"
    and "getTokenInfo env tok = Fulfilled (Some info)"
    and "fetchProfile env tok (user info) = Fulfilled None"
  shows "fetchTokenInfo env this =
     (Fulfilled (),
      fetchTokenInfo_catch (JsError (''User not found: '' @ user info))
        (record_call (Call_fetchProfile tok (user info))
          (record_call (Call_getTokenInfo tok) this)))"
  using assms by (simp add: fetchTokenInfo_def fetchUserProfile_def)


lemma fetchTokenInfo_profile_found:
  assumes "getToken env = Returns (Some tok)"
    and "newAuthService env tok = Returns ()"
    and "getTokenInfo env tok = Fulfilled (Some info)"
    and "fetchProfile env tok (user info) = Fulfilled (Some profile)"
  shows "fetchTokenInfo env this =
     (Fulfilled (),
      setState (SUCCESS (AUTHENTICATED \<lparr>token = tok, tokenInfo = info\<rparr> profile))
        (record_call (Call_fetchProfile tok (user info))
          (record_call (Call_getTokenInfo tok) this)))"
  using assms by (simp add: fetchTokenInfo_def fetchUserProfile_def)





section \<open>The claims\<close>

subsection \<open>No token in the store\<close>

text \<open>
  C4: when the token store reports the token absent, the run ends with
  Succeeded(Unauthenticated) and starts no call of the verification client and no call
  of the profile fetcher: the one effect of the run is the write of the envelope.
\<close>

theorem absent_token_unauthenticated_without_calls:
  assumes "getToken env = Returns None"
  shows "fst (fetchTokenInfo env this) = Fulfilled ()
    \<and> authState (componentDidMount env this) = SUCCESS UNAUTHENTICATED
    \<and> history (componentDidMount env this) = history this @ [SetState (SUCCESS UNAUTHENTICATED)]
    \<and> remote_calls (history (componentDidMount env this)) = remote_calls (history this)"
  using assms
  by (simp add: componentDidMount_def fetchTokenInfo_absent setState_simps remote_calls_append)

theorem absent_token_witness:
  "getToken (service None Unsettled) = Returns None
    \<and> authState (componentDidMount (service None Unsettled) constructor) = SUCCESS UNAUTHENTICATED
    \<and> history (componentDidMount (service None Unsettled) constructor)
        = [SetState (SUCCESS UNAUTHENTICATED)]
    \<and> remote_calls (history (componentDidMount (service None Unsettled) constructor)) = []"
  using absent_token_unauthenticated_without_calls [of "service None Unsettled" constructor]
  by (simp add: service_def constructor_def)

subsection \<open>Verification answers without metadata\<close>

text \<open>
  C8: when the verification client completes without raising and returns no metadata
  (\<^verbatim>\<open>null\<close>), the run ends with Succeeded(Unauthenticated).
\<close>

theorem absent_metadata_unauthenticated:
  assumes "getToken env = Returns (Some tok)"
    and "newAuthService env tok = Returns ()"
    and "getTokenInfo env tok = Fulfilled None"
  shows "fst (fetchTokenInfo env this) = Fulfilled ()
    \<and> authState (componentDidMount env this) = SUCCESS UNAUTHENTICATED
    \<and> history (componentDidMount env this)
        = history this @ [Call_getTokenInfo tok, SetState (SUCCESS UNAUTHENTICATED)]"
  using assms
  by (simp add: componentDidMount_def fetchTokenInfo_no_metadata setState_simps
      record_call_simps)

theorem absent_metadata_witness:
  "getToken (service (Some ''xyz'') (Fulfilled None))
      = Returns (Some ''xyz'')
    \<and> newAuthService (service (Some ''xyz'') (Fulfilled None)) ''xyz''
      = Returns ()
    \<and> getTokenInfo (service (Some ''xyz'') (Fulfilled None)) ''xyz'' = Fulfilled None
    \<and> authState (componentDidMount (service (Some ''xyz'') (Fulfilled None)) constructor)
        = SUCCESS UNAUTHENTICATED"
  using absent_metadata_unauthenticated
    [of "service (Some ''xyz'') (Fulfilled None)" "''xyz''" constructor]
  by (simp add: service_def)

subsection \<open>Verification raises a classified failure\<close>

text \<open>
  C1: for a token present in the store, when the verification client raises a classified
  failure (an \<^verbatim>\<open>AuthError\<close>) whose code is 10020, the run ends with
  Succeeded(Unauthenticated): the run is, effect for effect, the run in which the
  verification of that token returns no metadata, and its envelope is no Failed.
\<close>

theorem invalid_token_code_unauthenticated:
  assumes "getToken env = Returns (Some tok)"
    and "newAuthService env tok = Returns ()"
    and "getTokenInfo env tok = Rejected (AuthError 10020 msg)"
  shows "fst (fetchTokenInfo env this) = Fulfilled ()
    \<and> authState (componentDidMount env this) = SUCCESS UNAUTHENTICATED
    \<and> fetchTokenInfo env this
        = fetchTokenInfo (env\<lparr>getTokenInfo := (getTokenInfo env)(tok := Fulfilled None)\<rparr>) this
    \<and> (\<forall>m. authState (componentDidMount env this) \<noteq> ERROR m)"
proof -
  let ?env' = "env\<lparr>getTokenInfo := (getTokenInfo env)(tok := Fulfilled None)\<rparr>"
  have run: "fetchTokenInfo env this =
      (Fulfilled (), setState (SUCCESS UNAUTHENTICATED) (record_call (Call_getTokenInfo tok) this))"
    using assms
    by (simp add: fetchTokenInfo_rejected fetchTokenInfo_catch_def unauthenticatedState_def)
  have "getToken ?env' = Returns (Some tok)" and "newAuthService ?env' tok = Returns ()"
    and "getTokenInfo ?env' tok = Fulfilled None"
    using assms(1,2) by simp_all
  then have "fetchTokenInfo ?env' this =
      (Fulfilled (), setState (SUCCESS UNAUTHENTICATED) (record_call (Call_getTokenInfo tok) this))"
    by (rule fetchTokenInfo_no_metadata)
  with run show ?thesis
    by (simp add: componentDidMount_def setState_simps)
qed

theorem invalid_token_code_witness:
  "getToken (service (Some ''xyz'') (Rejected (AuthError 10020 ''expired'')))
      = Returns (Some ''xyz'')
    \<and> newAuthService (service (Some ''xyz'') (Rejected (AuthError 10020 ''expired''))) ''xyz''
      = Returns ()
    \<and> getTokenInfo (service (Some ''xyz'') (Rejected (AuthError 10020 ''expired''))) ''xyz''
        = Rejected (AuthError 10020 ''expired'')
    \<and> authState
        (componentDidMount (service (Some ''xyz'') (Rejected (AuthError 10020 ''expired'')))
          constructor)
        = SUCCESS UNAUTHENTICATED"
  using invalid_token_code_unauthenticated
    [of "service (Some ''xyz'') (Rejected (AuthError 10020 ''expired''))" "''xyz''" "''expired''"
      constructor]
  by (simp add: service_def)

text \<open>
  C5: when the verification client raises a classified failure whose code is not 10020,
  the run ends with Failed carrying the message of that failure, unmodified.
\<close>

theorem other_classified_failure_failed:
  assumes "getToken env = Returns (Some tok)"
    and "newAuthService env tok = Returns ()"
    and "getTokenInfo env tok = Rejected (AuthError code msg)"
    and "code \<noteq> 10020"
  shows "fst (fetchTokenInfo env this) = Fulfilled ()
    \<and> authState (componentDidMount env this) = ERROR msg
    \<and> history (componentDidMount env this)
        = history this @ [Call_getTokenInfo tok, SetState (ERROR msg)]"
  using assms
  by (simp add: componentDidMount_def fetchTokenInfo_rejected fetchTokenInfo_catch_simps
      record_call_simps)

theorem other_classified_failure_witness:
  "getToken (service (Some ''xyz'') (Rejected (AuthError 500 ''server down'')))
      = Returns (Some ''xyz'')
    \<and> newAuthService (service (Some ''xyz'') (Rejected (AuthError 500 ''server down''))) ''xyz''
      = Returns ()
    \<and> getTokenInfo (service (Some ''xyz'') (Rejected (AuthError 500 ''server down''))) ''xyz''
        = Rejected (AuthError 500 ''server down'')
    \<and> (500 :: int) \<noteq> 10020
    \<and> authState
        (componentDidMount (service (Some ''xyz'') (Rejected (AuthError 500 ''server down'')))
          constructor)
        = ERROR ''server down''"
  using other_classified_failure_failed
    [of "service (Some ''xyz'') (Rejected (AuthError 500 ''server down''))" "''xyz''" 500
      "''server down''" constructor]
  by (simp add: service_def)

subsection \<open>The profile lookup\<close>

text \<open>
  C2: for a token that validates and whose profile fetch returns no record (\<^verbatim>\<open>null\<close>),
  the run ends with Failed whose message is exactly \<^verbatim>\<open>"User not found: "\<close> followed by
  the \<^verbatim>\<open>user\<close> of the validation metadata; the outcome is an error, not Unauthenticated.
\<close>

theorem profile_absent_failed:
  assumes "getToken env = Returns (Some tok)"
    and "newAuthService env tok = Returns ()"
    and "getTokenInfo env tok = Fulfilled (Some info)"
    and "fetchProfile env tok (user info) = Fulfilled None"
  shows "fst (fetchTokenInfo env this) = Fulfilled ()
    \<and> authState (componentDidMount env this) = ERROR (''User not found: '' @ user info)
    \<and> authState (componentDidMount env this) \<noteq> SUCCESS UNAUTHENTICATED
    \<and> writes (history (componentDidMount env this))
        = writes (history this) @ [ERROR (''User not found: '' @ user info)]"
  using assms
  by (simp add: componentDidMount_def fetchTokenInfo_profile_absent fetchTokenInfo_catch_simps
      record_call_simps writes_append)

theorem profile_absent_witness:
  "getToken (service (Some ''tok-bob'') Unsettled)
      = Returns (Some ''tok-bob'')
    \<and> newAuthService (service (Some ''tok-bob'') Unsettled) ''tok-bob''
      = Returns ()
    \<and> getTokenInfo (service (Some ''tok-bob'') Unsettled) ''tok-bob''
        = Fulfilled (Some \<lparr>user = ''bob''\<rparr>)
    \<and> fetchProfile (service (Some ''tok-bob'') Unsettled) ''tok-bob'' ''bob'' = Fulfilled None
    \<and> authState (componentDidMount (service (Some ''tok-bob'') Unsettled) constructor)
        = ERROR ''User not found: bob''"
  using profile_absent_failed
    [of "service (Some ''tok-bob'') Unsettled" "''tok-bob''" "\<lparr>user = ''bob''\<rparr>" constructor]
  by (simp add: service_def)

text \<open>
  C7: for a token whose verification returns metadata and whose profile fetch returns a
  record, the run ends with Succeeded(Authenticated) holding the token read from the
  store, the metadata as the verification client returned it (every field of it) and
  the profile as the fetcher returned it.
\<close>

theorem valid_token_authenticated:
  assumes "getToken env = Returns (Some tok)"
    and "newAuthService env tok = Returns ()"
    and "getTokenInfo env tok = Fulfilled (Some info)"
    and "fetchProfile env tok (user info) = Fulfilled (Some profile)"
  shows "fst (fetchTokenInfo env this) = Fulfilled ()
    \<and> authState (componentDidMount env this)
        = SUCCESS (AUTHENTICATED \<lparr>token = tok, tokenInfo = info\<rparr> profile)
    \<and> history (componentDidMount env this)
        = history this @
          [Call_getTokenInfo tok, Call_fetchProfile tok (user info),
           SetState (SUCCESS (AUTHENTICATED \<lparr>token = tok, tokenInfo = info\<rparr> profile))]"
  using assms
  by (simp add: componentDidMount_def fetchTokenInfo_profile_found setState_simps
      record_call_simps)

theorem valid_token_witness:
  "getToken (service (Some ''abc123'') Unsettled)
      = Returns (Some ''abc123'')
    \<and> newAuthService (service (Some ''abc123'') Unsettled) ''abc123''
      = Returns ()
    \<and> getTokenInfo (service (Some ''abc123'') Unsettled) ''abc123''
        = Fulfilled (Some \<lparr>user = ''alice''\<rparr>)
    \<and> fetchProfile (service (Some ''abc123'') Unsettled) ''abc123'' ''alice''
        = Fulfilled (Some ''Alice'')
    \<and> authState (componentDidMount (service (Some ''abc123'') Unsettled) constructor)
        = SUCCESS (AUTHENTICATED \<lparr>token = ''abc123'', tokenInfo = \<lparr>user = ''alice''\<rparr>\<rparr> ''Alice'')"
  using valid_token_authenticated
    [of "service (Some ''abc123'') Unsettled" "''abc123''" "\<lparr>user = ''alice''\<rparr>" "''Alice''"
      constructor]
  by (simp add: service_def)

subsection \<open>Unclassified failures\<close>

text \<open>
  C6, as the claim states it, fails: a promise rejected with a value that is no
  \<^verbatim>\<open>Error\<close> and has the message \<^verbatim>\<open>"boom"\<close> ends the run with Failed("Unknown Error"),
  not with Failed("boom"), although a message is available.
\<close>

theorem unclassified_message_counterexample:
  "\<not> classified (NonError (Some ''boom''))
    \<and> thrown_message (NonError (Some ''boom'')) = Some ''boom''
    \<and> authState
        (componentDidMount (service (Some ''xyz'') (Rejected (NonError (Some ''boom''))))
          constructor)
        \<noteq> ERROR ''boom''
    \<and> authState
        (componentDidMount (service (Some ''xyz'') (Rejected (NonError (Some ''boom''))))
          constructor)
        = ERROR ''Unknown Error''"
  by (simp add: componentDidMount_def fetchTokenInfo_def service_def fetchTokenInfo_catch_def
      setState_def errorState_def Let_def)

text \<open>
  C6, amended: when verification or the profile fetch raises an unclassified failure,
  the run ends with Failed; the message is the failure's own \<^verbatim>\<open>message\<close> when the
  failure is an \<^verbatim>\<open>Error\<close>, and the literal \<^verbatim>\<open>"Unknown Error"\<close> when the thrown value is
  no \<^verbatim>\<open>Error\<close>, whether or not that value carries a message.
\<close>

theorem unclassified_failure_failed:
  assumes "getToken env = Returns (Some tok)"
    and "newAuthService env tok = Returns ()"
    and "getTokenInfo env tok = Rejected ex
      \<or> (\<exists>info. getTokenInfo env tok = Fulfilled (Some info)
            \<and> fetchProfile env tok (user info) = Rejected ex)"
    and "\<not> classified ex"
  shows "fst (fetchTokenInfo env this) = Fulfilled ()
    \<and> (\<forall>message. ex = JsError message \<longrightarrow>
          authState (componentDidMount env this) = ERROR message)
    \<and> (\<forall>m. ex = NonError m \<longrightarrow>
          authState (componentDidMount env this) = ERROR ''Unknown Error'')"
proof -
  from assms(3) obtain before where
    "fetchTokenInfo env this = (Fulfilled (), fetchTokenInfo_catch ex before)"
    using assms(1,2) fetchTokenInfo_rejected fetchTokenInfo_profile_rejected by metis
  then show ?thesis
    by (simp add: componentDidMount_def fetchTokenInfo_catch_simps)
qed

theorem unclassified_failure_witness:
  "getToken (service_profile_fails (JsError ''network down''))
      = Returns (Some ''abc123'')
    \<and> newAuthService (service_profile_fails (JsError ''network down'')) ''abc123''
      = Returns ()
    \<and> getTokenInfo (service_profile_fails (JsError ''network down'')) ''abc123''
        = Fulfilled (Some \<lparr>user = ''alice''\<rparr>)
    \<and> fetchProfile (service_profile_fails (JsError ''network down'')) ''abc123'' ''alice''
        = Rejected (JsError ''network down'')
    \<and> \<not> classified (JsError ''network down'')
    \<and> authState (componentDidMount (service_profile_fails (JsError ''network down'')) constructor)
        = ERROR ''network down''"
proof -
  let ?env = "service_profile_fails (JsError ''network down'')"
  have tok: "getToken ?env = Returns (Some ''abc123'')"
    by (simp add: service_profile_fails_def)
  have made: "newAuthService ?env ''abc123'' = Returns ()"
    by (simp add: service_profile_fails_def)
  have info: "getTokenInfo ?env ''abc123'' = Fulfilled (Some \<lparr>user = ''alice''\<rparr>)"
    by (simp add: service_profile_fails_def)
  have prof: "fetchProfile ?env ''abc123'' (user \<lparr>user = ''alice''\<rparr>)
      = Rejected (JsError ''network down'')"
    by (simp add: service_profile_fails_def)
  have raised: "getTokenInfo ?env ''abc123'' = Rejected (JsError ''network down'')
      \<or> (\<exists>info. getTokenInfo ?env ''abc123'' = Fulfilled (Some info)
            \<and> fetchProfile ?env ''abc123'' (user info) = Rejected (JsError ''network down''))"
    using info prof by blast
  have "\<not> classified (JsError ''network down'')"
    by simp
  from unclassified_failure_failed [OF tok made raised this, of constructor] tok made info prof
  show ?thesis
    by simp
qed

text \<open>
  C10: when the unclassified failure is an \<^verbatim>\<open>Error\<close> whose message is the empty string
  (as \<^verbatim>\<open>new Error()\<close> has it), the run ends with Failed(""): the message is surfaced as
  it is. An \<^verbatim>\<open>Error\<close> never takes the fallback branch: a run that ends with
  Failed("Unknown Error") after an unclassified failure was given a value that is no
  \<^verbatim>\<open>Error\<close>, or an \<^verbatim>\<open>Error\<close> whose own message is that very text.
\<close>

theorem empty_error_message_surfaced:
  assumes "getToken env = Returns (Some tok)"
    and "newAuthService env tok = Returns ()"
    and "getTokenInfo env tok = Rejected ex
      \<or> (\<exists>info. getTokenInfo env tok = Fulfilled (Some info)
            \<and> fetchProfile env tok (user info) = Rejected ex)"
  shows "(ex = JsError [] \<longrightarrow>
            authState (componentDidMount env this) = ERROR []
          \<and> authState (componentDidMount env this) \<noteq> ERROR ''Unknown Error'')
    \<and> (\<not> classified ex \<and> authState (componentDidMount env this) = ERROR ''Unknown Error''
          \<longrightarrow> (\<exists>m. ex = NonError m) \<or> ex = JsError ''Unknown Error'')"
proof -
  from assms(3) obtain before where
    "fetchTokenInfo env this = (Fulfilled (), fetchTokenInfo_catch ex before)"
    using assms(1,2) fetchTokenInfo_rejected fetchTokenInfo_profile_rejected by metis
  then have "authState (componentDidMount env this) = authState (fetchTokenInfo_catch ex before)"
    by (simp add: componentDidMount_def)
  then show ?thesis
    by (cases ex) (simp_all add: fetchTokenInfo_catch_simps)
qed

theorem empty_error_message_witness:
  "getToken (service (Some ''xyz'') (Rejected (JsError [])))
      = Returns (Some ''xyz'')
    \<and> newAuthService (service (Some ''xyz'') (Rejected (JsError []))) ''xyz''
      = Returns ()
    \<and> getTokenInfo (service (Some ''xyz'') (Rejected (JsError []))) ''xyz'' = Rejected (JsError [])
    \<and> authState (componentDidMount (service (Some ''xyz'') (Rejected (JsError []))) constructor)
        = ERROR []
    \<and> authState (componentDidMount (service (Some ''xyz'') (Rejected (JsError []))) constructor)
        \<noteq> ERROR ''Unknown Error''"
proof -
  let ?env = "service (Some ''xyz'') (Rejected (JsError []))"
  have tok: "getToken ?env = Returns (Some ''xyz'')"
    by (simp add: service_def)
  have made: "newAuthService ?env ''xyz'' = Returns ()"
    by (simp add: service_def)
  have rej: "getTokenInfo ?env ''xyz'' = Rejected (JsError [])"
    by (simp add: service_def)
  then have raised: "getTokenInfo ?env ''xyz'' = Rejected (JsError [])
      \<or> (\<exists>info. getTokenInfo ?env ''xyz'' = Fulfilled (Some info)
            \<and> fetchProfile ?env ''xyz'' (user info) = Rejected (JsError []))"
    by (rule disjI1)
  from empty_error_message_surfaced [OF tok made raised, of constructor] tok made rej
  show ?thesis
    by simp
qed

subsection \<open>The envelopes a run writes\<close>




subsection \<open>The outcome and the failures of a run\<close>




end
